theory Spec2Isabelle
  imports Main "HOL-Library.Char_ord" "HOL-Library.List_Lexorder" "HOL-Library.Option_ord"
begin

section \<open>JavaScript values\<close>

text \<open>
  A value read from a query result or from an object property is either a proper value,
  \<^verbatim>\<open>null\<close> (what a GROQ projection yields for a missing attribute) or
  \<^verbatim>\<open>undefined\<close> (a key that is not in the object at all). The TypeScript
  interfaces of the pages are erased at run time, so every field of a fetched document
  is modelled as nullable.
\<close>

datatype 'a nullable = Undefined | Null | Val 'a

text \<open>\<^verbatim>\<open>a ?? b\<close>: the right operand only when the left one is null or undefined.\<close>

fun nullish_or :: "'a nullable \<Rightarrow> 'a nullable \<Rightarrow> 'a nullable" where
  "nullish_or (Val a) b = Val a"
| "nullish_or Null b = b"
| "nullish_or Undefined b = b"

text \<open>\<^verbatim>\<open>o?.f\<close>: \<^verbatim>\<open>undefined\<close> when \<open>o\<close> is null or undefined.\<close>

fun opt_chain :: "'a nullable \<Rightarrow> ('a \<Rightarrow> 'b nullable) \<Rightarrow> 'b nullable" where
  "opt_chain (Val a) f = f a"
| "opt_chain Null f = Undefined"
| "opt_chain Undefined f = Undefined"

text \<open>Truthiness of a string-valued expression: null, undefined and the empty string are falsy.\<close>

fun truthy_string :: "string nullable \<Rightarrow> bool" where
  "truthy_string (Val s) = (s \<noteq> [])"
| "truthy_string Null = False"
| "truthy_string Undefined = False"

text \<open>A GROQ result attribute: a missing attribute comes back as \<^verbatim>\<open>null\<close>.\<close>

fun of_option :: "'a option \<Rightarrow> 'a nullable" where
  "of_option None = Null"
| "of_option (Some a) = Val a"

text \<open>An explicit projection of an attribute of a nested object: an absent key becomes null.\<close>

fun projected :: "'a nullable \<Rightarrow> 'a nullable" where
  "projected Undefined = Null"
| "projected Null = Null"
| "projected (Val a) = Val a"


section \<open>Data model\<close>

text \<open>
  Nested objects that a query returns whole (image, SEO data, body blocks) keep their keys
  as stored: a key that was never set is \<open>Undefined\<close>.
  \<open>asset\<close> holds the \<^verbatim>\<open>_ref\<close> of the asset reference (after \<^verbatim>\<open>asset->\<close>, the
  \<^verbatim>\<open>_id\<close> of the asset document).
\<close>

record SanityImage =
  asset :: "string nullable"
  alt :: "string nullable"
  caption :: "string nullable"

record SanitySlug =
  slug_current :: "string nullable"

record SEO =
  metaTitle :: "string nullable"
  metaDescription :: "string nullable"
  seo_keywords :: "string list nullable"

text \<open>
  A body block (\<^verbatim>\<open>TypedObject\<close>): the discriminant \<^verbatim>\<open>_type\<close> and the string-valued
  properties the rendering rules read (\<^verbatim>\<open>alt\<close>, \<^verbatim>\<open>caption\<close>, \<^verbatim>\<open>code\<close>,
  \<^verbatim>\<open>filename\<close>, \<^verbatim>\<open>language\<close>, \<^verbatim>\<open>style\<close>, and \<^verbatim>\<open>asset\<close> for the asset
  reference), as an association list.
\<close>

record TypedObject =
  obj_type :: string
  obj_fields :: "(string \<times> string) list"

definition field :: "TypedObject \<Rightarrow> string \<Rightarrow> string nullable" where
  "field v k = (case map_of (obj_fields v) k of None \<Rightarrow> Undefined | Some s \<Rightarrow> Val s)"

text \<open>
  A document of the content store. Top-level attributes are optional (\<open>None\<close>: not set).
  \<open>doc_slug_current\<close> is the value of the path \<^verbatim>\<open>slug.current\<close>; \<open>doc_author\<close> and
  \<open>doc_categories\<close> hold the \<^verbatim>\<open>_ref\<close> of each reference; \<open>doc_name\<close> and
  \<open>doc_image\<close> are the attributes of author documents.
\<close>

record document =
  doc_id :: string
  doc_type :: string
  doc_title :: "string option"
  doc_slug_current :: "string option"
  doc_publishedAt :: "string option"
  doc_status :: "string option"
  doc_excerpt :: "string option"
  doc_body :: "TypedObject list option"
  doc_author :: "string option"
  doc_categories :: "string list option"
  doc_mainImage :: "SanityImage option"
  doc_tags :: "string list option"
  doc_seo :: "SEO option"
  doc_name :: "string option"
  doc_image :: "SanityImage option"

text \<open>The views the pages work on: what the two queries project out of a document.\<close>

record Author =
  author_id :: "string nullable"
  author_name :: "string nullable"
  author_image :: "SanityImage nullable"

record Category =
  category_id :: "string nullable"
  category_title :: "string nullable"

record Post =
  post_id :: "string nullable"
  post_type :: "string nullable"
  post_title :: "string nullable"
  post_slug :: "SanitySlug nullable"
  post_publishedAt :: "string nullable"
  post_body :: "TypedObject list nullable"
  post_excerpt :: "string nullable"
  post_author :: "Author nullable"
  post_categories :: "Category nullable list nullable"
  post_mainImage :: "SanityImage nullable"
  post_tags :: "string list nullable"
  post_seo :: "SEO nullable"
  post_status :: "string nullable"


section \<open>The two queries\<close>

text \<open>
  The queries are GROQ text in the pages; the functions below are that text read by the
  GROQ semantics, over the list of all documents (\<^verbatim>\<open>*\<close>) in the store's own order.
\<close>

text \<open>\<^verbatim>\<open>ref->\<close>: the document with that \<^verbatim>\<open>_id\<close>, if there is one.\<close>

definition deref :: "document list \<Rightarrow> string \<Rightarrow> document option" where
  "deref ds r = find (\<lambda>d. doc_id d = r) ds"

text \<open>
  \<^verbatim>\<open>| order(key desc)\<close>: insertion into a list kept in descending key order. Strings
  compare lexicographically, and an attribute that is not set comes after every string.
  GROQ leaves the order of documents with equal keys open; here they keep their relative
  order, and nothing proved below depends on it.
\<close>

fun insert_desc :: "('a \<Rightarrow> 'k::linorder) \<Rightarrow> 'a \<Rightarrow> 'a list \<Rightarrow> 'a list" where
  "insert_desc key x [] = [x]"
| "insert_desc key x (y # ys) =
     (if key y \<le> key x then x # y # ys else y # insert_desc key x ys)"

definition order_desc :: "('a \<Rightarrow> 'k::linorder) \<Rightarrow> 'a list \<Rightarrow> 'a list" where
  "order_desc key xs = foldr (insert_desc key) xs []"

text \<open>The filter of \<^verbatim>\<open>POSTS_QUERY\<close> (src/app/page.tsx, lines 28-33).\<close>

definition POSTS_filter :: "document \<Rightarrow> bool" where
  "POSTS_filter d \<longleftrightarrow>
     doc_type d = ''post''
     \<and> doc_slug_current d \<noteq> None
     \<and> doc_publishedAt d \<noteq> None
     \<and> doc_status d = Some ''published''"

text \<open>\<^verbatim>\<open>slug\<close> in a projection: the slug object, null when the document has none.\<close>

definition slug_of :: "document \<Rightarrow> SanitySlug nullable" where
  "slug_of d = (case doc_slug_current d of None \<Rightarrow> Null
                | Some s \<Rightarrow> Val \<lparr>slug_current = Val s\<rparr>)"

text \<open>\<^verbatim>\<open>"author": author->{name}\<close>\<close>

definition author_summary :: "document list \<Rightarrow> document \<Rightarrow> Author nullable" where
  "author_summary ds d =
     (case doc_author d of None \<Rightarrow> Null
      | Some r \<Rightarrow> (case deref ds r of None \<Rightarrow> Null
          | Some a \<Rightarrow> Val \<lparr>author_id = Undefined, author_name = of_option (doc_name a),
                          author_image = Undefined\<rparr>))"

text \<open>\<^verbatim>\<open>"categories": categories[]->{title}\<close>\<close>

definition category_summaries :: "document list \<Rightarrow> document \<Rightarrow> Category nullable list nullable" where
  "category_summaries ds d =
     (case doc_categories d of None \<Rightarrow> Null
      | Some rs \<Rightarrow> Val (map (\<lambda>r. case deref ds r of None \<Rightarrow> Null
          | Some c \<Rightarrow> Val \<lparr>category_id = Undefined, category_title = of_option (doc_title c)\<rparr>) rs))"

text \<open>The projection of \<^verbatim>\<open>POSTS_QUERY\<close> (lines 33-40): keys it does not list are absent.\<close>

definition POSTS_projection :: "document list \<Rightarrow> document \<Rightarrow> Post" where
  "POSTS_projection ds d =
     \<lparr>post_id = Val (doc_id d),
      post_type = Undefined,
      post_title = of_option (doc_title d),
      post_slug = slug_of d,
      post_publishedAt = of_option (doc_publishedAt d),
      post_body = Undefined,
      post_excerpt = Undefined,
      post_author = author_summary ds d,
      post_categories = category_summaries ds d,
      post_mainImage = Undefined,
      post_tags = Undefined,
      post_seo = Undefined,
      post_status = Undefined\<rparr>"

text \<open>The documents \<^verbatim>\<open>POSTS_QUERY\<close> selects: filter, order, then the slice \<^verbatim>\<open>[0...12]\<close>.\<close>

definition POSTS_selected :: "document list \<Rightarrow> document list" where
  "POSTS_selected ds = take 12 (order_desc doc_publishedAt (filter POSTS_filter ds))"

definition POSTS_QUERY :: "document list \<Rightarrow> Post list" where
  "POSTS_QUERY ds = map (POSTS_projection ds) (POSTS_selected ds)"

text \<open>The filter of \<^verbatim>\<open>POST_QUERY\<close> (src/app/blog/[slug]/page.tsx, line 77), with the parameter \<^verbatim>\<open>$slug\<close>.\<close>

definition POST_filter :: "string \<Rightarrow> document \<Rightarrow> bool" where
  "POST_filter sl d \<longleftrightarrow>
     doc_type d = ''post''
     \<and> doc_slug_current d = Some sl
     \<and> doc_status d = Some ''published''"

text \<open>\<^verbatim>\<open>"author": author->{_id, name, image}\<close>\<close>

definition author_detail :: "document list \<Rightarrow> document \<Rightarrow> Author nullable" where
  "author_detail ds d =
     (case doc_author d of None \<Rightarrow> Null
      | Some r \<Rightarrow> (case deref ds r of None \<Rightarrow> Null
          | Some a \<Rightarrow> Val \<lparr>author_id = Val (doc_id a), author_name = of_option (doc_name a),
                          author_image = of_option (doc_image a)\<rparr>))"

text \<open>\<^verbatim>\<open>"categories": categories[]->{_id, title}\<close>\<close>

definition category_details :: "document list \<Rightarrow> document \<Rightarrow> Category nullable list nullable" where
  "category_details ds d =
     (case doc_categories d of None \<Rightarrow> Null
      | Some rs \<Rightarrow> Val (map (\<lambda>r. case deref ds r of None \<Rightarrow> Null
          | Some c \<Rightarrow> Val \<lparr>category_id = Val (doc_id c), category_title = of_option (doc_title c)\<rparr>) rs))"

text \<open>\<^verbatim>\<open>mainImage { asset->, alt, caption }\<close>\<close>

definition mainImage_detail :: "document list \<Rightarrow> document \<Rightarrow> SanityImage nullable" where
  "mainImage_detail ds d =
     (case doc_mainImage d of None \<Rightarrow> Null
      | Some m \<Rightarrow> Val \<lparr>asset = (case asset m of
                                 Val r \<Rightarrow> of_option (map_option doc_id (deref ds r))
                               | _ \<Rightarrow> Null),
                      alt = projected (alt m),
                      caption = projected (caption m)\<rparr>)"

definition POST_projection :: "document list \<Rightarrow> document \<Rightarrow> Post" where
  "POST_projection ds d =
     \<lparr>post_id = Val (doc_id d),
      post_type = Val (doc_type d),
      post_title = of_option (doc_title d),
      post_slug = slug_of d,
      post_publishedAt = of_option (doc_publishedAt d),
      post_body = of_option (doc_body d),
      post_excerpt = of_option (doc_excerpt d),
      post_author = author_detail ds d,
      post_categories = category_details ds d,
      post_mainImage = mainImage_detail ds d,
      post_tags = of_option (doc_tags d),
      post_seo = of_option (doc_seo d),
      post_status = of_option (doc_status d)\<rparr>"

text \<open>The document \<^verbatim>\<open>POST_QUERY\<close> selects: the first match (\<^verbatim>\<open>[0]\<close>), if any.\<close>

definition POST_selected :: "document list \<Rightarrow> string \<Rightarrow> document option" where
  "POST_selected ds sl = (case filter (POST_filter sl) ds of [] \<Rightarrow> None | d # _ \<Rightarrow> Some d)"

definition POST_QUERY :: "document list \<Rightarrow> string \<Rightarrow> Post nullable" where
  "POST_QUERY ds sl = of_option (map_option (POST_projection ds) (POST_selected ds sl))"

text \<open>A post document with the four attributes the filters read, for examples.\<close>

definition post_doc :: "string \<Rightarrow> string \<Rightarrow> string \<Rightarrow> string \<Rightarrow> document" where
  "post_doc i sl ts st =
     \<lparr>doc_id = i, doc_type = ''post'', doc_title = Some ''Hello'', doc_slug_current = Some sl,
      doc_publishedAt = Some ts, doc_status = Some st, doc_excerpt = None, doc_body = None,
      doc_author = None, doc_categories = None, doc_mainImage = None, doc_tags = None,
      doc_seo = None, doc_name = None, doc_image = None\<rparr>"

text \<open>The publication timestamps of a result list, in result order (\<open>None\<close>: not defined).\<close>

fun timestamp :: "Post \<Rightarrow> string option" where
  "timestamp p = (case post_publishedAt p of Val t \<Rightarrow> Some t | _ \<Rightarrow> None)"


section \<open>Markup, errors and the libraries\<close>

text \<open>
  What a component returns: an element (a tag or component name, its string-valued
  properties, its children), a text node, nothing (\<^verbatim>\<open>null\<close>, \<^verbatim>\<open>undefined\<close>,
  \<^verbatim>\<open>false\<close> and the empty string all render nothing), or the element
  \<^verbatim>\<open><PortableText value={...} components={components} />\<close> with the body it is given
  (its rules are the constant \<^verbatim>\<open>components\<close> of the module). The page only makes that
  element; rendering it is the work of the PortableText component.
\<close>

datatype markup =
    Element string "(string \<times> string) list" "markup list"
  | Text string
  | Nothing
  | PortableTextElement "TypedObject list nullable"

text \<open>
  What a page can raise: \<open>Error\<close> is \<^verbatim>\<open>throw new Error(msg)\<close> in the source,
  \<open>TypeError\<close> a property read on null or undefined, \<open>Thrown\<close> an error raised
  inside the named library call.
\<close>

datatype error = Error string | TypeError | Thrown string

fun and_then :: "error + 'a \<Rightarrow> ('a \<Rightarrow> error + 'b) \<Rightarrow> error + 'b" where
  "and_then (Inl e) f = Inl e"
| "and_then (Inr a) f = f a"

text \<open>\<^verbatim>\<open>xs.map(f)\<close> with a callback that may raise: the first error ends the loop.\<close>

fun each :: "('a \<Rightarrow> error + 'b) \<Rightarrow> 'a list \<Rightarrow> error + 'b list" where
  "each f [] = Inr []"
| "each f (x # xs) = and_then (f x) (\<lambda>y. and_then (each f xs) (\<lambda>ys. Inr (y # ys)))"

text \<open>\<^verbatim>\<open>o.f\<close> on an object that may be null or undefined.\<close>

fun read :: "'a nullable \<Rightarrow> ('a \<Rightarrow> 'b) \<Rightarrow> error + 'b" where
  "read (Val a) f = Inr (f a)"
| "read Null f = Inl TypeError"
| "read Undefined f = Inl TypeError"

text \<open>A property with a nullable value: React leaves out a null or undefined one.\<close>

fun attr :: "string \<Rightarrow> string nullable \<Rightarrow> (string \<times> string) list" where
  "attr k (Val s) = [(k, s)]"
| "attr k Null = []"
| "attr k Undefined = []"

text \<open>\<^verbatim>\<open>{x}\<close> as a child.\<close>

fun text_child :: "string nullable \<Rightarrow> markup" where
  "text_child (Val s) = Text s"
| "text_child Null = Nothing"
| "text_child Undefined = Nothing"

text \<open>\<^verbatim>\<open>${x}\<close> in a template string.\<close>

fun template :: "string nullable \<Rightarrow> string" where
  "template (Val s) = s"
| "template Null = ''null''"
| "template Undefined = ''undefined''"

text \<open>\<^verbatim>\<open>a || b\<close> on strings.\<close>

definition truthy_or :: "string nullable \<Rightarrow> string nullable \<Rightarrow> string nullable" where
  "truthy_or a b = (if truthy_string a then a else b)"

text \<open>\<^verbatim>\<open>xs.join(sep)\<close>: null and undefined elements are joined as empty strings.\<close>

fun join :: "string \<Rightarrow> string nullable list \<Rightarrow> string" where
  "join sep [] = []"
| "join sep [x] = (case x of Val s \<Rightarrow> s | _ \<Rightarrow> [])"
| "join sep (x # y # ys) = (case x of Val s \<Rightarrow> s | _ \<Rightarrow> []) @ sep @ join sep (y # ys)"

text \<open>
  The separator before the categories, as the bytes of each source file: U+2022 in UTF-8 on
  the detail page, and the seven bytes that stand in its place on the index page.
\<close>

definition bullet :: string where
  "bullet = [CHR 0xE2, CHR 0x80, CHR 0xA2]"

definition index_bullet :: string where
  "index_bullet = [CHR 0xC3, CHR 0xA2, CHR 0xE2, CHR 0x82, CHR 0xAC, CHR 0xC2, CHR 0xA2]"

text \<open>
  The options an image URL builder carries. \<^verbatim>\<open>imageUrlBuilder({projectId, dataset})\<close>
  makes one; \<^verbatim>\<open>image\<close>, \<^verbatim>\<open>width\<close> and \<^verbatim>\<open>height\<close> each return a builder with one
  more option set.
\<close>

record ImageUrlBuilder =
  b_projectId :: string
  b_dataset :: string
  b_source :: "SanityImage option"
  b_width :: "nat option"
  b_height :: "nat option"

definition imageUrlBuilder :: "string \<Rightarrow> string \<Rightarrow> ImageUrlBuilder" where
  "imageUrlBuilder p d =
     \<lparr>b_projectId = p, b_dataset = d, b_source = None, b_width = None, b_height = None\<rparr>"

definition image :: "ImageUrlBuilder \<Rightarrow> SanityImage \<Rightarrow> ImageUrlBuilder" where
  "image b src = b\<lparr>b_source := Some src\<rparr>"

definition width :: "ImageUrlBuilder \<Rightarrow> nat \<Rightarrow> ImageUrlBuilder" where
  "width b w = b\<lparr>b_width := Some w\<rparr>"

definition height :: "ImageUrlBuilder \<Rightarrow> nat \<Rightarrow> ImageUrlBuilder" where
  "height b h = b\<lparr>b_height := Some h\<rparr>"

text \<open>
  The library functions the pages call, as parameters:
  \<^item> \<open>url\<close>: \<^verbatim>\<open>.url()\<close> of the image URL builder, a URL, no URL, or an error;
  \<^item> \<open>format_date\<close>: \<^verbatim>\<open>format(new Date(s), "MMMM d, yyyy")\<close> of date-fns;
  \<^item> \<open>cn\<close>: the class-name helper of \<^verbatim>\<open>@/lib/utils\<close>.
\<close>

record lib =
  url :: "ImageUrlBuilder \<Rightarrow> error + string nullable"
  format_date :: "string nullable \<Rightarrow> error + string"
  cn :: "string nullable list \<Rightarrow> string"


section \<open>Module initialisation of the detail page\<close>

text \<open>What \<^verbatim>\<open>createClient\<close> was given (src/unnamed/part_000) and \<^verbatim>\<open>client.config()\<close> returns.\<close>

record ClientConfig =
  projectId :: "string nullable"
  dataset :: "string nullable"
  apiVersion :: "string nullable"
  useCdn :: "bool nullable"

definition client :: ClientConfig where
  "client = \<lparr>projectId = Val ''ppql4ntm'', dataset = Val ''production'',
             apiVersion = Val ''2024-01-01'', useCdn = Val False\<rparr>"

text \<open>
  Lines 104-108 of src/app/blog/[slug]/page.tsx, run once when the module is loaded: the
  module's value is the builder that \<^verbatim>\<open>urlFor\<close> closes over, or the error raised.
\<close>

definition module_load :: "ClientConfig \<Rightarrow> error + ImageUrlBuilder" where
  "module_load config =
     (if \<not> truthy_string (projectId config) \<or> \<not> truthy_string (dataset config)
      then Inl (Error ''Sanity project ID and dataset are required'')
      else Inr (imageUrlBuilder (template (projectId config)) (template (dataset config))))"

definition urlFor :: "ImageUrlBuilder \<Rightarrow> SanityImage \<Rightarrow> ImageUrlBuilder" where
  "urlFor builder source = image builder source"


section \<open>The rules for the body\<close>

text \<open>The image a body block of type image is read as (\<^verbatim>\<open>value: SanityImage\<close>).\<close>

definition image_of :: "TypedObject \<Rightarrow> SanityImage" where
  "image_of v = \<lparr>asset = field v ''asset'', alt = field v ''alt'', caption = field v ''caption''\<rparr>"

text \<open>
  \<^verbatim>\<open>components.types.image\<close> (lines 114-124). \<^verbatim>\<open>urlFor\<close> always returns a builder, so
  the \<^verbatim>\<open>?.\<close> after it never short-circuits.
\<close>

definition types_image :: "lib \<Rightarrow> ImageUrlBuilder \<Rightarrow> TypedObject \<Rightarrow> error + markup" where
  "types_image L builder v =
     and_then (url L (width (urlFor builder (image_of v)) 800)) (\<lambda>imageUrl.
       if \<not> truthy_string imageUrl then Inr Nothing
       else Inr (Element ''figure'' [(''className'', ''my-8'')]
         [Element ''Image''
            [(''src'', template imageUrl),
             (''alt'', template (truthy_or (field v ''alt'') (Val []))),
             (''width'', ''800''), (''height'', ''450''), (''className'', ''rounded-lg'')] [],
          if truthy_string (field v ''caption'')
          then Element ''figcaption'' [(''className'', ''text-center text-sm text-gray-500 mt-2'')]
                 [text_child (field v ''caption'')]
          else Nothing]))"

text \<open>\<^verbatim>\<open>components.types.code\<close> (lines 125-130).\<close>

definition types_code :: "lib \<Rightarrow> TypedObject \<Rightarrow> error + markup" where
  "types_code L v =
     Inr (Element ''pre'' [(''className'', ''bg-gray-100 p-4 rounded-lg overflow-x-auto'')]
       [Element ''code''
          [(''className'', cn L [Val ''text-sm'',
              if truthy_string (field v ''language'')
              then Val (''language-'' @ template (field v ''language''))
              else field v ''language''])]
          [text_child (field v ''code'')],
        if truthy_string (field v ''filename'')
        then Element ''div'' [(''className'', ''text-xs text-gray-500 mt-2'')]
               [text_child (field v ''filename'')]
        else Nothing])"

text \<open>
  \<^verbatim>\<open>components.block\<close> (lines 132-137): the rules for the styles \<^verbatim>\<open>h1\<close>, \<^verbatim>\<open>h2\<close>,
  \<^verbatim>\<open>h3\<close> and \<^verbatim>\<open>blockquote\<close>, each around the children it is given. These six rules
  are all of \<^verbatim>\<open>components\<close>; which of them the PortableText component calls for a
  block, and what it renders for a block that has none, is the component's own code.
\<close>

definition block_h1 :: "markup list \<Rightarrow> markup" where
  "block_h1 children = Element ''h1'' [(''className'', ''text-3xl font-bold mt-8 mb-4'')] children"

definition block_h2 :: "markup list \<Rightarrow> markup" where
  "block_h2 children = Element ''h2'' [(''className'', ''text-2xl font-bold mt-6 mb-3'')] children"

definition block_h3 :: "markup list \<Rightarrow> markup" where
  "block_h3 children = Element ''h3'' [(''className'', ''text-xl font-bold mt-4 mb-2'')] children"

definition block_blockquote :: "markup list \<Rightarrow> markup" where
  "block_blockquote children =
     Element ''blockquote'' [(''className'', ''border-l-4 border-gray-300 pl-4 my-4 italic'')] children"


section \<open>The index page\<close>

text \<open>
  The category line of a post (index lines 76-81, detail lines 198-203): nothing unless the
  list is there and non-empty. The index page puts a label before the titles.
\<close>

definition category_line ::
  "string \<Rightarrow> markup list \<Rightarrow> Category nullable list nullable \<Rightarrow> error + markup" where
  "category_line sep label cats =
     (case cats of
        Val (c # cs) \<Rightarrow>
          and_then (each (\<lambda>cat. read cat category_title) (c # cs)) (\<lambda>titles.
            Inr (Element ''Fragment'' []
              [Element ''span'' [] [Text sep],
               Element ''span'' [] (label @ [Text (join '', '' titles)])]))
      | _ \<Rightarrow> Inr Nothing)"

text \<open>One card of the list (lines 66-86). Properties and children are evaluated in source order.\<close>

definition post_card :: "lib \<Rightarrow> Post \<Rightarrow> error + markup" where
  "post_card L post =
     and_then (read (post_slug post) slug_current) (\<lambda>cur.
     and_then (format_date L (post_publishedAt post)) (\<lambda>date.
     and_then (read (post_author post) author_name) (\<lambda>name.
     and_then (category_line index_bullet [Text ''Categories: ''] (post_categories post)) (\<lambda>cats.
       Inr (Element ''Card''
         (attr ''key'' (post_id post)
            @ [(''className'', ''hover:shadow-lg transition-shadow duration-200'')])
         [Element ''Link'' [(''href'', ''/blog/'' @ template cur)]
            [Element ''CardHeader'' []
               [Element ''CardTitle''
                  [(''className'', ''text-xl hover:text-blue-600 transition-colors'')]
                  [text_child (post_title post)]],
             Element ''CardContent'' []
               [Element ''div'' [(''className'', ''space-y-2'')]
                  [Element ''p'' [(''className'', ''text-sm text-gray-600'')]
                     [Text ''Published on '', Text date],
                   Element ''div''
                     [(''className'', ''flex flex-wrap gap-2 items-center text-sm text-gray-500'')]
                     [Element ''span'' [] [Text ''By '', text_child name], cats]]]]])))))"

text \<open>The view returned when there is nothing to list (lines 53-58).\<close>

definition no_posts_view :: markup where
  "no_posts_view =
     Element ''main'' [(''className'', ''container mx-auto min-h-screen max-w-3xl p-8'')]
       [Element ''h1'' [(''className'', ''text-4xl font-bold mb-8'')] [Text ''Blog Posts''],
        Element ''p'' [(''className'', ''text-gray-600'')] [Text ''No posts found.'']]"

text \<open>The view of a list of posts (lines 61-90): the frame around the cards, and \<^verbatim>\<open>posts.map\<close>.\<close>

definition posts_list :: "markup list \<Rightarrow> markup" where
  "posts_list cards =
     Element ''main'' [(''className'', ''container mx-auto min-h-screen max-w-3xl p-8'')]
       [Element ''h1'' [(''className'', ''text-4xl font-bold mb-8'')] [Text ''Blog Posts''],
        Element ''div'' [(''className'', ''grid gap-6'')] cards]"

definition posts_view :: "lib \<Rightarrow> Post list \<Rightarrow> error + markup" where
  "posts_view L posts = and_then (each (post_card L) posts) (\<lambda>cards. Inr (posts_list cards))"

text \<open>
  \<^verbatim>\<open>BlogIndexPage\<close> after the fetch (lines 52-90). \<^verbatim>\<open>!posts?.length\<close> holds for null,
  for undefined and for the empty list.
\<close>

fun BlogIndexPage_render :: "lib \<Rightarrow> Post list nullable \<Rightarrow> error + markup" where
  "BlogIndexPage_render L Undefined = Inr no_posts_view"
| "BlogIndexPage_render L Null = Inr no_posts_view"
| "BlogIndexPage_render L (Val []) = Inr no_posts_view"
| "BlogIndexPage_render L (Val (p # ps)) = posts_view L (p # ps)"

text \<open>\<^verbatim>\<open>BlogIndexPage\<close>: the fetch of \<^verbatim>\<open>POSTS_QUERY\<close>, then the view.\<close>

definition BlogIndexPage :: "lib \<Rightarrow> document list \<Rightarrow> error + markup" where
  "BlogIndexPage L ds = BlogIndexPage_render L (Val (POSTS_QUERY ds))"




section \<open>The detail page\<close>

record Metadata =
  md_title :: "string nullable"
  md_description :: "string nullable"
  md_keywords :: "string list nullable"

text \<open>\<^verbatim>\<open>generateMetadata\<close> after the fetch (lines 146-156).\<close>

fun generateMetadata_of :: "Post nullable \<Rightarrow> Metadata" where
  "generateMetadata_of (Val post) =
     \<lparr>md_title = nullish_or (opt_chain (post_seo post) metaTitle) (post_title post),
      md_description =
        nullish_or (nullish_or (opt_chain (post_seo post) metaDescription) (post_excerpt post))
          Undefined,
      md_keywords = nullish_or (opt_chain (post_seo post) seo_keywords) Undefined\<rparr>"
| "generateMetadata_of Null =
     \<lparr>md_title = Val ''Post Not Found'', md_description = Undefined, md_keywords = Undefined\<rparr>"
| "generateMetadata_of Undefined =
     \<lparr>md_title = Val ''Post Not Found'', md_description = Undefined, md_keywords = Undefined\<rparr>"

definition generateMetadata :: "document list \<Rightarrow> string \<Rightarrow> Metadata" where
  "generateMetadata ds sl = generateMetadata_of (POST_QUERY ds sl)"

text \<open>The view returned when the fetch gave no post (lines 165-172).\<close>

definition back_arrow :: string where
  "back_arrow = [CHR 0xE2, CHR 0x86, CHR 0x90]"

definition not_found_view :: markup where
  "not_found_view =
     Element ''main'' [(''className'', ''container mx-auto min-h-screen max-w-3xl p-8'')]
       [Element ''Link''
          [(''href'', ''/''), (''className'', ''text-blue-600 hover:underline mb-4 inline-block'')]
          [Text (back_arrow @ '' Back to posts'')],
        Element ''h1'' [(''className'', ''text-4xl font-bold'')] [Text ''Post not found'']]"

text \<open>Line 175: the URL of the main image, null when the post has none.\<close>

definition mainImageUrl_of :: "lib \<Rightarrow> ImageUrlBuilder \<Rightarrow> Post \<Rightarrow> error + string nullable" where
  "mainImageUrl_of L builder post =
     (case post_mainImage post of
        Val m \<Rightarrow> url L (height (width (urlFor builder m) 1200) 675)
      | _ \<Rightarrow> Inr Null)"

text \<open>Lines 184-189.\<close>

definition main_image_box :: "Post \<Rightarrow> string nullable \<Rightarrow> markup" where
  "main_image_box post mainImageUrl =
     (if truthy_string mainImageUrl
      then Element ''div'' [(''className'', ''relative aspect-video w-full overflow-hidden rounded-xl'')]
        [Element ''Image''
           ([(''src'', template mainImageUrl)]
              @ attr ''alt'' (truthy_or (opt_chain (post_mainImage post) alt) (post_title post))
              @ [(''fill'', ''true''), (''className'', ''object-cover''), (''priority'', ''true'')]) [],
         if truthy_string (opt_chain (post_mainImage post) caption)
         then Element ''p''
                [(''className'', ''absolute bottom-0 w-full bg-black/60 p-2 text-sm text-white'')]
                [text_child (opt_chain (post_mainImage post) caption)]
         else Nothing]
      else Nothing)"

text \<open>Lines 213-221.\<close>

definition tags_box :: "Post \<Rightarrow> markup" where
  "tags_box post =
     (case post_tags post of
        Val (t # ts) \<Rightarrow>
          Element ''div'' [(''className'', ''flex flex-wrap gap-2 pt-8'')]
            (map (\<lambda>tag. Element ''span''
                    [(''key'', tag), (''className'', ''bg-gray-100 px-3 py-1 rounded-full text-sm text-gray-700'')]
                    [Text tag]) (t # ts))
      | _ \<Rightarrow> Nothing)"

text \<open>Lines 223-244.\<close>

definition seo_line :: "string \<Rightarrow> string \<Rightarrow> markup" where
  "seo_line label v = Element ''p'' [] [Element ''strong'' [] [Text label], Text '' '', Text v]"

definition seo_box :: "Post \<Rightarrow> markup" where
  "seo_box post =
     (case post_seo post of
        Val s \<Rightarrow>
          Element ''Card'' [(''className'', ''mt-12'')]
            [Element ''CardContent'' [(''className'', ''space-y-4 pt-6'')]
               [Element ''h2'' [(''className'', ''text-xl font-semibold'')] [Text ''SEO Information''],
                if truthy_string (metaTitle s)
                then seo_line ''Meta Title:'' (template (metaTitle s)) else Nothing,
                if truthy_string (metaDescription s)
                then seo_line ''Meta Description:'' (template (metaDescription s)) else Nothing,
                case seo_keywords s of
                  Val (k # ks) \<Rightarrow> seo_line ''Meta Keywords:'' (join '', '' (map Val (k # ks)))
                | _ \<Rightarrow> Nothing]]
      | _ \<Rightarrow> Nothing)"

text \<open>The view of a post (lines 175-247).\<close>

definition post_view :: "lib \<Rightarrow> ImageUrlBuilder \<Rightarrow> Post \<Rightarrow> error + markup" where
  "post_view L builder post =
     and_then (mainImageUrl_of L builder post) (\<lambda>mainImageUrl.
     and_then (format_date L (post_publishedAt post)) (\<lambda>date.
     and_then (read (post_author post) author_name) (\<lambda>name.
     and_then (category_line bullet [] (post_categories post)) (\<lambda>cats.
       Inr (Element ''main'' [(''className'', ''container mx-auto min-h-screen max-w-3xl p-8'')]
         [Element ''Link''
            [(''href'', ''/''), (''className'', ''text-blue-600 hover:underline mb-8 inline-block'')]
            [Text (back_arrow @ '' Back to posts'')],
          Element ''article'' [(''className'', ''space-y-8'')]
            [main_image_box post mainImageUrl,
             Element ''div'' [(''className'', ''space-y-4'')]
               [Element ''h1'' [(''className'', ''text-4xl font-bold'')] [text_child (post_title post)],
                Element ''div'' [(''className'', ''flex flex-wrap gap-4 text-sm text-gray-600'')]
                  [Element ''time'' (attr ''dateTime'' (post_publishedAt post)) [Text date],
                   Element ''span'' [] [Text bullet],
                   Element ''span'' [] [Text ''By '', text_child name],
                   cats],
                if truthy_string (post_excerpt post)
                then Element ''p'' [(''className'', ''text-lg text-gray-600 italic'')]
                       [text_child (post_excerpt post)]
                else Nothing],
             Element ''div'' [(''className'', ''prose prose-lg max-w-none'')]
               [PortableTextElement (post_body post)],
             tags_box post,
             seo_box post]])))))"

text \<open>\<^verbatim>\<open>PostPage\<close> after the fetch (lines 164-247).\<close>

fun PostPage_render :: "lib \<Rightarrow> ImageUrlBuilder \<Rightarrow> Post nullable \<Rightarrow> error + markup" where
  "PostPage_render L builder (Val post) = post_view L builder post"
| "PostPage_render L builder Null = Inr not_found_view"
| "PostPage_render L builder Undefined = Inr not_found_view"

definition PostPage :: "lib \<Rightarrow> ImageUrlBuilder \<Rightarrow> document list \<Rightarrow> string \<Rightarrow> error + markup" where
  "PostPage L builder ds sl = PostPage_render L builder (POST_QUERY ds sl)"

text \<open>
  The detail route as served: the module is loaded first, and its two exports exist only
  when loading did not raise.
\<close>

definition serve_PostPage ::
  "ClientConfig \<Rightarrow> lib \<Rightarrow> document list \<Rightarrow> string \<Rightarrow> error + markup" where
  "serve_PostPage config L ds sl = and_then (module_load config) (\<lambda>builder. PostPage L builder ds sl)"

definition serve_generateMetadata :: "ClientConfig \<Rightarrow> document list \<Rightarrow> string \<Rightarrow> error + Metadata" where
  "serve_generateMetadata config ds sl =
     and_then (module_load config) (\<lambda>builder. Inr (generateMetadata ds sl))"


text \<open>
  The metadata of a fetched post in the words of the specification: an SEO override is
  present when the post has SEO data and the field holds a value; the title is the override
  or else the post's title; the description is the override, or else the excerpt when
  present, or else absent; the keywords are the SEO keyword list or else absent.
\<close>

definition seo_override :: "Post \<Rightarrow> (SEO \<Rightarrow> 'a nullable) \<Rightarrow> 'a option" where
  "seo_override post f =
     (case post_seo post of
        Val s \<Rightarrow> (case f s of Val a \<Rightarrow> Some a | _ \<Rightarrow> None)
      | _ \<Rightarrow> None)"

definition metadata_spec :: "Post \<Rightarrow> Metadata" where
  "metadata_spec post =
     \<lparr>md_title = (case seo_override post metaTitle of Some t \<Rightarrow> Val t | None \<Rightarrow> post_title post),
      md_description =
        (case seo_override post metaDescription of
           Some d \<Rightarrow> Val d
         | None \<Rightarrow> (case post_excerpt post of Val e \<Rightarrow> Val e | _ \<Rightarrow> Undefined)),
      md_keywords = (case seo_override post seo_keywords of Some k \<Rightarrow> Val k | None \<Rightarrow> Undefined)\<rparr>"


section \<open>Libraries for the examples\<close>

text \<open>A library whose functions all raise, for examples that reach no library call.\<close>

definition unreached_lib :: lib where
  "unreached_lib =
     \<lparr>url = (\<lambda>b. Inl (Thrown ''url'')),
      format_date = (\<lambda>s. Inl (Thrown ''format'')),
      cn = (\<lambda>cs. [])\<rparr>"

text \<open>
  \<^verbatim>\<open>url()\<close> of the image URL builder of @sanity/image-url, as far as the examples need
  it. An asset reference has the form \<^verbatim>\<open>image-<id>-<width>x<height>-<format>\<close>. For a
  request whose source has no asset reference, or a reference with no hyphen in it, the
  builder raises; for any other request it is \<open>U\<close>.
\<close>

definition url_needing_asset ::
  "(ImageUrlBuilder \<Rightarrow> error + string nullable) \<Rightarrow> ImageUrlBuilder \<Rightarrow> error + string nullable" where
  "url_needing_asset U b =
     (case b_source b of
        None \<Rightarrow> Inl (Thrown ''url'')
      | Some src \<Rightarrow>
          (case asset src of
             Val r \<Rightarrow> if CHR ''-'' \<in> set r then U b else Inl (Thrown ''url'')
           | _ \<Rightarrow> Inl (Thrown ''url'')))"


section \<open>Auxiliary facts\<close>

lemma and_then_Inr_iff: "and_then x f = Inr y \<longleftrightarrow> (\<exists>a. x = Inr a \<and> f a = Inr y)"
  by (cases x) auto

lemma each_length: "each f xs = Inr ys \<Longrightarrow> length ys = length xs"
  by (induction xs arbitrary: ys) (auto simp: and_then_Inr_iff)


section \<open>Properties of the queries\<close>

lemma set_insert_desc: "set (insert_desc key x xs) = insert x (set xs)"
  by (induction xs) auto

lemma length_insert_desc: "length (insert_desc key x xs) = Suc (length xs)"
  by (induction xs) auto

lemma sorted_insert_desc:
  "sorted_wrt (\<lambda>a b. key b \<le> key a) xs \<Longrightarrow> sorted_wrt (\<lambda>a b. key b \<le> key a) (insert_desc key x xs)"
  by (induction xs) (auto simp: set_insert_desc)

lemma set_order_desc: "set (order_desc key xs) = set xs"
  unfolding order_desc_def by (induction xs) (auto simp: set_insert_desc)

lemma length_order_desc: "length (order_desc key xs) = length xs"
  unfolding order_desc_def by (induction xs) (auto simp: length_insert_desc)

lemma sorted_order_desc: "sorted_wrt (\<lambda>a b. key b \<le> key a) (order_desc key xs)"
  unfolding order_desc_def by (induction xs) (auto simp: sorted_insert_desc)

lemma distinct_insert_desc:
  "distinct (map key (insert_desc key x xs)) = (key x \<notin> key ` set xs \<and> distinct (map key xs))"
  by (induction xs) (auto simp: set_insert_desc)

lemma distinct_order_desc: "distinct (map key (order_desc key xs)) = distinct (map key xs)"
  unfolding order_desc_def
proof (induction xs)
  case Nil show ?case by simp
next
  case (Cons x xs)
  have "set (foldr (insert_desc key) xs []) = set xs"
    using set_order_desc[of key xs] by (simp add: order_desc_def)
  with Cons show ?case by (simp add: distinct_insert_desc)
qed

lemma strict_of_distinct:
  "sorted_wrt (\<lambda>a b. key b \<le> key a) xs \<Longrightarrow> distinct (map key xs)
   \<Longrightarrow> sorted_wrt (\<lambda>a b. (key b :: 'k::linorder) < key a) xs"
proof (induction xs)
  case Nil
  show ?case by simp
next
  case (Cons a xs)
  have "key b < key a" if "b \<in> set xs" for b
  proof -
    from Cons.prems that have "key b \<le> key a" by auto
    moreover from Cons.prems have "key a \<notin> key ` set xs" by simp
    with that have "key b \<noteq> key a" by (metis imageI)
    ultimately show ?thesis by simp
  qed
  with Cons show ?case by simp
qed

lemma POSTS_selected_subset: "set (POSTS_selected ds) \<subseteq> {d \<in> set ds. POSTS_filter d}"
  unfolding POSTS_selected_def using set_take_subset[of 12 "order_desc doc_publishedAt (filter POSTS_filter ds)"]
  by (auto simp: set_order_desc)

lemma POSTS_selected_sorted:
  "sorted_wrt (\<lambda>a b. doc_publishedAt b \<le> doc_publishedAt a) (POSTS_selected ds)"
  unfolding POSTS_selected_def by (rule sorted_wrt_take) (rule sorted_order_desc)

lemma POSTS_selected_length: "length (POSTS_selected ds) \<le> 12"
  unfolding POSTS_selected_def by simp

lemma timestamp_projection: "timestamp (POSTS_projection ds d) = doc_publishedAt d"
  by (cases "doc_publishedAt d") (simp_all add: POSTS_projection_def)

lemma POSTS_QUERY_sorted:
  "sorted_wrt (\<lambda>p q. timestamp q \<le> timestamp p) (POSTS_QUERY ds)"
  unfolding POSTS_QUERY_def using POSTS_selected_sorted[of ds]
  by (simp add: sorted_wrt_map timestamp_projection del: timestamp.simps)

lemma POSTS_selected_strict:
  assumes "distinct (map doc_publishedAt (filter POSTS_filter ds))"
  shows "sorted_wrt (\<lambda>a b. doc_publishedAt b < doc_publishedAt a) (POSTS_selected ds)"
proof -
  have "distinct (map doc_publishedAt (order_desc doc_publishedAt (filter POSTS_filter ds)))"
    using assms by (simp add: distinct_order_desc)
  moreover have "sorted_wrt (\<lambda>a b. doc_publishedAt b \<le> doc_publishedAt a) (order_desc doc_publishedAt (filter POSTS_filter ds))"
    by (rule sorted_order_desc)
  ultimately have "sorted_wrt (\<lambda>a b. doc_publishedAt b < doc_publishedAt a) (order_desc doc_publishedAt (filter POSTS_filter ds))"
    by (rule strict_of_distinct[rotated])
  then show ?thesis unfolding POSTS_selected_def by (rule sorted_wrt_take)
qed

lemma POST_selected_filter: "POST_selected ds sl = Some d \<Longrightarrow> d \<in> set ds \<and> POST_filter sl d"
proof -
  assume a: "POST_selected ds sl = Some d"
  then obtain rest where "filter (POST_filter sl) ds = d # rest"
    by (auto simp: POST_selected_def split: list.splits)
  then have "d \<in> set (filter (POST_filter sl) ds)" by simp
  then show ?thesis by simp
qed

lemma same_id_same_doc:
  "distinct (map doc_id ds) \<Longrightarrow> d \<in> set ds \<Longrightarrow> d' \<in> set ds \<Longrightarrow> doc_id d' = doc_id d \<Longrightarrow> d' = d"
  by (meson distinct_map inj_onD)

lemma POST_QUERY_status: "POST_QUERY ds sl = Val p \<Longrightarrow> post_status p = Val ''published''"
proof -
  assume q: "POST_QUERY ds sl = Val p"
  then obtain d where s: "POST_selected ds sl = Some d" and p: "p = POST_projection ds d"
    by (cases "POST_selected ds sl") (auto simp: POST_QUERY_def)
  from s have "POST_filter sl d" using POST_selected_filter by blast
  with p show ?thesis by (simp add: POST_filter_def POST_projection_def)
qed

text \<open>
  C1 (as amended). For every document store, the index query returns at most 12 entries; each
  entry is the projection of a stored document of type post with status published, a defined
  slug and a defined publication timestamp (both kept by the projection); the entries are in
  descending order of publication timestamp, ties allowed; and the order is strictly
  descending whenever the matching documents have pairwise distinct timestamps.
\<close>

theorem POSTS_QUERY_result:
  "length (POSTS_QUERY ds) \<le> 12
   \<and> (\<forall>p \<in> set (POSTS_QUERY ds). \<exists>d \<in> set ds. p = POSTS_projection ds d
         \<and> doc_type d = ''post'' \<and> doc_status d = Some ''published''
         \<and> (\<exists>s. doc_slug_current d = Some s \<and> post_slug p = Val \<lparr>slug_current = Val s\<rparr>)
         \<and> (\<exists>t. doc_publishedAt d = Some t \<and> post_publishedAt p = Val t))
   \<and> sorted_wrt (\<lambda>p q. timestamp q \<le> timestamp p) (POSTS_QUERY ds)
   \<and> (distinct (map doc_publishedAt (filter POSTS_filter ds))
        \<longrightarrow> sorted_wrt (\<lambda>p q. timestamp q < timestamp p) (POSTS_QUERY ds))"
proof (intro conjI ballI impI)
  show "length (POSTS_QUERY ds) \<le> 12"
    by (simp add: POSTS_QUERY_def POSTS_selected_length)
next
  fix p assume "p \<in> set (POSTS_QUERY ds)"
  then obtain d where d: "d \<in> set (POSTS_selected ds)" and p: "p = POSTS_projection ds d"
    by (auto simp: POSTS_QUERY_def)
  from d POSTS_selected_subset[of ds] have "d \<in> set ds" and f: "POSTS_filter d" by auto
  from f obtain s t where "doc_slug_current d = Some s" "doc_publishedAt d = Some t"
    by (auto simp: POSTS_filter_def)
  with f p \<open>d \<in> set ds\<close>
  show "\<exists>d \<in> set ds. p = POSTS_projection ds d
         \<and> doc_type d = ''post'' \<and> doc_status d = Some ''published''
         \<and> (\<exists>s. doc_slug_current d = Some s \<and> post_slug p = Val \<lparr>slug_current = Val s\<rparr>)
         \<and> (\<exists>t. doc_publishedAt d = Some t \<and> post_publishedAt p = Val t)"
    by (intro bexI[of _ d]) (simp_all add: POSTS_filter_def POSTS_projection_def slug_of_def)
next
  show "sorted_wrt (\<lambda>p q. timestamp q \<le> timestamp p) (POSTS_QUERY ds)"
    by (rule POSTS_QUERY_sorted)
next
  assume "distinct (map doc_publishedAt (filter POSTS_filter ds))"
  then show "sorted_wrt (\<lambda>p q. timestamp q < timestamp p) (POSTS_QUERY ds)"
    unfolding POSTS_QUERY_def using POSTS_selected_strict[of ds]
    by (simp add: sorted_wrt_map timestamp_projection del: timestamp.simps)
qed

theorem POSTS_QUERY_result_witness:
  "distinct (map doc_publishedAt (filter POSTS_filter
       [post_doc ''p1'' ''first'' ''2024-01-01'' ''published'',
        post_doc ''p2'' ''second'' ''2024-03-05'' ''published'',
        post_doc ''p3'' ''third'' ''2024-02-01'' ''draft'']))
   \<and> map post_id (POSTS_QUERY
       [post_doc ''p1'' ''first'' ''2024-01-01'' ''published'',
        post_doc ''p2'' ''second'' ''2024-03-05'' ''published'',
        post_doc ''p3'' ''third'' ''2024-02-01'' ''draft'']) = [Val ''p2'', Val ''p1'']
   \<and> sorted_wrt (\<lambda>p q. timestamp q < timestamp p) (POSTS_QUERY
       [post_doc ''p1'' ''first'' ''2024-01-01'' ''published'',
        post_doc ''p2'' ''second'' ''2024-03-05'' ''published'',
        post_doc ''p3'' ''third'' ''2024-02-01'' ''draft''])"
proof -
  let ?ds = "[post_doc ''p1'' ''first'' ''2024-01-01'' ''published'',
              post_doc ''p2'' ''second'' ''2024-03-05'' ''published'',
              post_doc ''p3'' ''third'' ''2024-02-01'' ''draft'']"
  have h: "distinct (map doc_publishedAt (filter POSTS_filter ?ds))"
    by (simp add: POSTS_filter_def post_doc_def)
  have ids: "map post_id (POSTS_QUERY ?ds) = [Val ''p2'', Val ''p1'']"
    by (simp add: POSTS_QUERY_def POSTS_selected_def order_desc_def POSTS_filter_def
        post_doc_def POSTS_projection_def)
  from POSTS_QUERY_result [of ?ds] h
  have s: "sorted_wrt (\<lambda>p q. timestamp q < timestamp p) (POSTS_QUERY ?ds)"
    by blast
  from h ids s show ?thesis by (intro conjI)
qed

text \<open>
  C1 as stated fails: two published posts with the same publication timestamp are both
  returned, so the result is not strictly descending.
\<close>

theorem POSTS_QUERY_ties_counterexample:
  "\<not> sorted_wrt (\<lambda>p q. timestamp q < timestamp p)
       (POSTS_QUERY [post_doc ''p1'' ''first'' ''2024-01-01'' ''published'',
                     post_doc ''p2'' ''second'' ''2024-01-01'' ''published''])"
  by (simp add: POSTS_QUERY_def POSTS_selected_def order_desc_def POSTS_filter_def post_doc_def
      POSTS_projection_def)

text \<open>
  C2. A document whose status is draft or archived is never among the documents the index
  query selects, and is never the document the detail query selects, whatever the requested
  slug. With unique document identifiers, its identifier is in no entry of the index result
  and is not the identifier of the detail result.
\<close>

theorem unpublished_never_returned:
  assumes "doc_status d = Some ''draft'' \<or> doc_status d = Some ''archived''"
  shows "d \<notin> set (POSTS_selected ds)
     \<and> POST_selected ds sl \<noteq> Some d
     \<and> (distinct (map doc_id ds) \<and> d \<in> set ds \<longrightarrow>
          Val (doc_id d) \<notin> post_id ` set (POSTS_QUERY ds)
          \<and> (\<forall>p. POST_QUERY ds sl = Val p \<longrightarrow> post_id p \<noteq> Val (doc_id d)))"
proof -
  from assms have np: "doc_status d \<noteq> Some ''published''" by auto
  then have nf: "\<not> POSTS_filter d" and nf': "\<not> POST_filter sl d"
    by (simp_all add: POSTS_filter_def POST_filter_def)
  from nf have 1: "d \<notin> set (POSTS_selected ds)"
    using POSTS_selected_subset[of ds] by auto
  from nf' have 2: "POST_selected ds sl \<noteq> Some d"
    using POST_selected_filter[of ds sl d] by auto
  have 3: "Val (doc_id d) \<notin> post_id ` set (POSTS_QUERY ds)"
    if dist: "distinct (map doc_id ds)" and mem: "d \<in> set ds"
  proof
    assume "Val (doc_id d) \<in> post_id ` set (POSTS_QUERY ds)"
    then obtain d' where d': "d' \<in> set (POSTS_selected ds)" and "doc_id d' = doc_id d"
      by (auto simp: POSTS_QUERY_def POSTS_projection_def)
    moreover from d' have "d' \<in> set ds" using POSTS_selected_subset[of ds] by auto
    ultimately have "d' = d" using same_id_same_doc[OF dist mem] by simp
    with d' 1 show False by simp
  qed
  have 4: "post_id p \<noteq> Val (doc_id d)"
    if dist: "distinct (map doc_id ds)" and mem: "d \<in> set ds" and q: "POST_QUERY ds sl = Val p" for p
  proof
    assume e: "post_id p = Val (doc_id d)"
    from q obtain d' where s: "POST_selected ds sl = Some d'" and p: "p = POST_projection ds d'"
      by (cases "POST_selected ds sl") (auto simp: POST_QUERY_def)
    from e p have "doc_id d' = doc_id d" by (simp add: POST_projection_def)
    moreover from s have "d' \<in> set ds" using POST_selected_filter by blast
    ultimately have "d' = d" using same_id_same_doc[OF dist mem] by simp
    with s 2 show False by simp
  qed
  from 1 2 3 4 show ?thesis by blast
qed

theorem unpublished_never_returned_witness:
  "doc_status (post_doc ''p3'' ''third'' ''2024-02-01'' ''draft'') = Some ''draft''
   \<and> post_doc ''p3'' ''third'' ''2024-02-01'' ''draft'' \<notin> set (POSTS_selected
        [post_doc ''p1'' ''first'' ''2024-01-01'' ''published'',
         post_doc ''p3'' ''third'' ''2024-02-01'' ''draft'',
         post_doc ''p4'' ''third'' ''2024-03-05'' ''published''])
   \<and> Val ''p3'' \<notin> post_id ` set (POSTS_QUERY
        [post_doc ''p1'' ''first'' ''2024-01-01'' ''published'',
         post_doc ''p3'' ''third'' ''2024-02-01'' ''draft'',
         post_doc ''p4'' ''third'' ''2024-03-05'' ''published''])
   \<and> (\<exists>p. POST_QUERY
        [post_doc ''p1'' ''first'' ''2024-01-01'' ''published'',
         post_doc ''p3'' ''third'' ''2024-02-01'' ''draft'',
         post_doc ''p4'' ''third'' ''2024-03-05'' ''published''] ''third'' = Val p
        \<and> post_id p = Val ''p4'' \<and> post_id p \<noteq> Val ''p3'')"
proof -
  let ?d = "post_doc ''p3'' ''third'' ''2024-02-01'' ''draft''"
  let ?ds = "[post_doc ''p1'' ''first'' ''2024-01-01'' ''published'', ?d,
              post_doc ''p4'' ''third'' ''2024-03-05'' ''published'']"
  have st: "doc_status ?d = Some ''draft''"
    by (simp add: post_doc_def)
  have dist: "distinct (map doc_id ?ds)" and mem: "?d \<in> set ?ds"
    by (simp_all add: post_doc_def)
  have q: "POST_QUERY ?ds ''third'' = Val (POST_projection ?ds (post_doc ''p4'' ''third'' ''2024-03-05'' ''published''))"
    by (simp add: POST_QUERY_def POST_selected_def POST_filter_def post_doc_def)
  have i: "post_id (POST_projection ?ds (post_doc ''p4'' ''third'' ''2024-03-05'' ''published'')) = Val ''p4''"
    by (simp add: POST_projection_def post_doc_def)
  have di: "doc_id ?d = ''p3''"
    by (simp add: post_doc_def)
  from unpublished_never_returned [of ?d ?ds "''third''"] st dist mem
  have a: "?d \<notin> set (POSTS_selected ?ds)"
    and b: "Val (doc_id ?d) \<notin> post_id ` set (POSTS_QUERY ?ds)"
    and c: "\<forall>p. POST_QUERY ?ds ''third'' = Val p \<longrightarrow> post_id p \<noteq> Val (doc_id ?d)"
    by blast+
  from c q have "post_id (POST_projection ?ds (post_doc ''p4'' ''third'' ''2024-03-05'' ''published'')) \<noteq> Val (doc_id ?d)"
    by blast
  with q i have e: "\<exists>p. POST_QUERY ?ds ''third'' = Val p \<and> post_id p = Val ''p4'' \<and> post_id p \<noteq> Val ''p3''"
    unfolding di by blast
  from b have b': "Val ''p3'' \<notin> post_id ` set (POSTS_QUERY ?ds)"
    unfolding di .
  from st a b' e show ?thesis by (intro conjI)
qed


section \<open>Properties of the image rule\<close>

text \<open>
  What the image rule does with the result of the builder: a non-empty URL becomes the source
  of the image of a figure, and a null, undefined or empty result makes the rule return
  nothing. The request always has the width 800 and no height.
\<close>

lemma types_image_request:
  "width (urlFor builder (image_of v)) 800 = builder\<lparr>b_source := Some (image_of v), b_width := Some 800\<rparr>"
  by (simp add: width_def urlFor_def image_def)

lemma types_image_results:
  "url L (builder\<lparr>b_source := Some (image_of v), b_width := Some 800\<rparr>) = Inr (Val u) \<Longrightarrow> u \<noteq> []
     \<Longrightarrow> types_image L builder v =
           Inr (Element ''figure'' [(''className'', ''my-8'')]
             [Element ''Image''
                [(''src'', u), (''alt'', template (truthy_or (field v ''alt'') (Val []))),
                 (''width'', ''800''), (''height'', ''450''), (''className'', ''rounded-lg'')] [],
              if truthy_string (field v ''caption'')
              then Element ''figcaption'' [(''className'', ''text-center text-sm text-gray-500 mt-2'')]
                     [text_child (field v ''caption'')]
              else Nothing])"
  "url L (builder\<lparr>b_source := Some (image_of v), b_width := Some 800\<rparr>) = Inr r \<Longrightarrow> \<not> truthy_string r
     \<Longrightarrow> types_image L builder v = Inr Nothing"
  unfolding types_image_def types_image_request by simp_all

text \<open>
  C3 fails on the code. The rule calls the builder with nothing around the call: when the
  builder raises for the block, the rule ends with that error, and the test of the URL on
  the next line, which would return nothing, is not reached. The builder raises for an image
  block whose asset reference is malformed or not set, so such a block is an error where the
  claim says it is left out.
\<close>

theorem image_rule_raises:
  "url L (builder\<lparr>b_source := Some (image_of v), b_width := Some 800\<rparr>) = Inl e
     \<Longrightarrow> types_image L builder v = Inl e"
  unfolding types_image_def types_image_request by simp

theorem image_rule_raises_witness:
  "\<forall>U. url (unreached_lib\<lparr>url := url_needing_asset U\<rparr>)
          (imageUrlBuilder ''ppql4ntm'' ''production''
             \<lparr>b_source := Some (image_of \<lparr>obj_type = ''image'', obj_fields = [(''asset'', ''abc'')]\<rparr>),
              b_width := Some 800\<rparr>)
        = Inl (Thrown ''url'')
      \<and> types_image (unreached_lib\<lparr>url := url_needing_asset U\<rparr>)
          (imageUrlBuilder ''ppql4ntm'' ''production'')
          \<lparr>obj_type = ''image'', obj_fields = [(''asset'', ''abc'')]\<rparr>
        = Inl (Thrown ''url'')
      \<and> types_image (unreached_lib\<lparr>url := url_needing_asset U\<rparr>)
          (imageUrlBuilder ''ppql4ntm'' ''production'') \<lparr>obj_type = ''image'', obj_fields = []\<rparr>
        = Inl (Thrown ''url'')"
proof
  fix U
  let ?L = "unreached_lib\<lparr>url := url_needing_asset U\<rparr>"
  let ?b = "imageUrlBuilder ''ppql4ntm'' ''production''"
  let ?v = "\<lparr>obj_type = ''image'', obj_fields = [(''asset'', ''abc'')]\<rparr>"
  let ?w = "\<lparr>obj_type = ''image'', obj_fields = []\<rparr>"
  have u: "url ?L (?b\<lparr>b_source := Some (image_of ?v), b_width := Some 800\<rparr>) = Inl (Thrown ''url'')"
    by (simp add: url_needing_asset_def image_of_def field_def)
  have u': "url ?L (?b\<lparr>b_source := Some (image_of ?w), b_width := Some 800\<rparr>) = Inl (Thrown ''url'')"
    by (simp add: url_needing_asset_def image_of_def field_def)
  from image_rule_raises [OF u]
  have r: "types_image ?L ?b ?v = Inl (Thrown ''url'')" .
  from image_rule_raises [OF u']
  have r': "types_image ?L ?b ?w = Inl (Thrown ''url'')" .
  from u r r'
  show "url ?L (?b\<lparr>b_source := Some (image_of ?v), b_width := Some 800\<rparr>) = Inl (Thrown ''url'')
      \<and> types_image ?L ?b ?v = Inl (Thrown ''url'')
      \<and> types_image ?L ?b ?w = Inl (Thrown ''url'')"
    by (intro conjI)
qed


section \<open>Properties of the detail page\<close>

lemma nullish_or_opt_chain:
  "nullish_or (opt_chain (post_seo post) f) b = (case seo_override post f of Some a \<Rightarrow> Val a | None \<Rightarrow> b)"
  by (cases "post_seo post") (auto simp: seo_override_def split: nullable.splits)

text \<open>
  C5. For every fetched post, the generated metadata is the metadata of the specification:
  the title is the SEO title override when present, else the post's title; the description
  is the SEO description override when present, else the excerpt when present, else absent
  (undefined, not an empty string); the keywords are the SEO keyword list when present,
  else absent.
\<close>

theorem generateMetadata_fields:
  "generateMetadata_of (Val post) = metadata_spec post
   \<and> generateMetadata ds sl =
      (case POST_QUERY ds sl of Val p \<Rightarrow> metadata_spec p
       | _ \<Rightarrow> \<lparr>md_title = Val ''Post Not Found'', md_description = Undefined, md_keywords = Undefined\<rparr>)
   \<and> (seo_override post metaDescription = None
        \<and> (post_excerpt post = Null \<or> post_excerpt post = Undefined)
      \<longrightarrow> md_description (generateMetadata_of (Val post)) = Undefined)"
proof -
  have m: "generateMetadata_of (Val p) = metadata_spec p" for p
    unfolding generateMetadata_of.simps metadata_spec_def nullish_or_opt_chain
    by (cases "post_excerpt p") (simp_all split: option.splits)
  have a: "md_description (metadata_spec post) = Undefined"
    if "seo_override post metaDescription = None"
      and "post_excerpt post = Null \<or> post_excerpt post = Undefined"
    using that by (auto simp: metadata_spec_def)
  have g: "generateMetadata ds sl =
      (case POST_QUERY ds sl of Val p \<Rightarrow> metadata_spec p
       | _ \<Rightarrow> \<lparr>md_title = Val ''Post Not Found'', md_description = Undefined, md_keywords = Undefined\<rparr>)"
    by (cases "POST_QUERY ds sl") (simp_all add: generateMetadata_def m del: generateMetadata_of.simps(1))
  from m [of post] g a show ?thesis by simp
qed

theorem generateMetadata_fields_witness:
  "generateMetadata [post_doc ''p1'' ''hello'' ''2024-01-01'' ''published''] ''hello'' =
     \<lparr>md_title = Val ''Hello'', md_description = Undefined, md_keywords = Undefined\<rparr>
   \<and> generateMetadata_of (Val \<lparr>post_id = Val ''p2'', post_type = Val ''post'', post_title = Val ''Title'',
        post_slug = Null, post_publishedAt = Null, post_body = Null, post_excerpt = Val ''Short'',
        post_author = Null, post_categories = Null, post_mainImage = Null, post_tags = Null,
        post_seo = Val \<lparr>metaTitle = Val ''Override'', metaDescription = Undefined,
                          seo_keywords = Val [''a'', ''b'']\<rparr>,
        post_status = Val ''published''\<rparr>) =
     \<lparr>md_title = Val ''Override'', md_description = Val ''Short'', md_keywords = Val [''a'', ''b'']\<rparr>"
proof -
  let ?d = "post_doc ''p1'' ''hello'' ''2024-01-01'' ''published''"
  let ?p = "POST_projection [?d] ?d"
  let ?q = "\<lparr>post_id = Val ''p2'', post_type = Val ''post'', post_title = Val ''Title'',
        post_slug = Null, post_publishedAt = Null, post_body = Null, post_excerpt = Val ''Short'',
        post_author = Null, post_categories = Null, post_mainImage = Null, post_tags = Null,
        post_seo = Val \<lparr>metaTitle = Val ''Override'', metaDescription = Undefined,
                          seo_keywords = Val [''a'', ''b'']\<rparr>,
        post_status = Val ''published''\<rparr>"
  have q: "POST_QUERY [?d] ''hello'' = Val ?p"
    by (simp add: POST_QUERY_def POST_selected_def POST_filter_def post_doc_def)
  have s: "metadata_spec ?p =
     \<lparr>md_title = Val ''Hello'', md_description = Undefined, md_keywords = Undefined\<rparr>"
    by (simp add: metadata_spec_def seo_override_def POST_projection_def post_doc_def)
  have s': "metadata_spec ?q =
     \<lparr>md_title = Val ''Override'', md_description = Val ''Short'', md_keywords = Val [''a'', ''b'']\<rparr>"
    by (simp add: metadata_spec_def seo_override_def)
  from generateMetadata_fields [of ?q "[?d]" "''hello''"]
  have g: "generateMetadata [?d] ''hello'' =
      (case POST_QUERY [?d] ''hello'' of Val p \<Rightarrow> metadata_spec p
       | _ \<Rightarrow> \<lparr>md_title = Val ''Post Not Found'', md_description = Undefined, md_keywords = Undefined\<rparr>)"
    and g': "generateMetadata_of (Val ?q) = metadata_spec ?q"
    by blast+
  from g have 1: "generateMetadata [?d] ''hello'' =
     \<lparr>md_title = Val ''Hello'', md_description = Undefined, md_keywords = Undefined\<rparr>"
    unfolding q using s by simp
  from g' have 2: "generateMetadata_of (Val ?q) =
     \<lparr>md_title = Val ''Override'', md_description = Val ''Short'', md_keywords = Val [''a'', ''b'']\<rparr>"
    unfolding s' .
  from 1 2 show ?thesis by (intro conjI)
qed

lemma post_view_shape:
  "post_view L builder post = Inr m \<Longrightarrow> \<exists>link article. m = Element ''main'' [(''className'', ''container mx-auto min-h-screen max-w-3xl p-8'')] [link, Element ''article'' [(''className'', ''space-y-8'')] article]"
  by (auto simp: post_view_def and_then_Inr_iff)

lemma POST_QUERY_no_match: "filter (POST_filter sl) ds = [] \<Longrightarrow> POST_QUERY ds sl = Null"
  by (simp add: POST_QUERY_def POST_selected_def)

text \<open>
  C6. When no document matches the detail query, the page is the "not found" view: the
  link back to the posts and the heading "Post not found". No view of a post equals it.
  The metadata is the title "Post Not Found" alone. Both are values, not errors, also when
  the route is served with the client of the repository.
\<close>

theorem not_found_handled:
  assumes "filter (POST_filter sl) ds = []"
  shows "let not_found =
       Element ''main'' [(''className'', ''container mx-auto min-h-screen max-w-3xl p-8'')]
         [Element ''Link''
            [(''href'', ''/''), (''className'', ''text-blue-600 hover:underline mb-4 inline-block'')]
            [Text ([CHR 0xE2, CHR 0x86, CHR 0x90] @ '' Back to posts'')],
          Element ''h1'' [(''className'', ''text-4xl font-bold'')] [Text ''Post not found'']]
     in PostPage L builder ds sl = Inr not_found
      \<and> generateMetadata ds sl = \<lparr>md_title = Val ''Post Not Found'', md_description = Undefined, md_keywords = Undefined\<rparr>
      \<and> serve_PostPage client L ds sl = Inr not_found
      \<and> serve_generateMetadata client ds sl = Inr \<lparr>md_title = Val ''Post Not Found'', md_description = Undefined, md_keywords = Undefined\<rparr>
      \<and> (\<forall>post. PostPage_render L builder (Val post) \<noteq> Inr not_found)"
proof -
  from assms have q: "POST_QUERY ds sl = Null" by (rule POST_QUERY_no_match)
  have l: "module_load client = Inr (imageUrlBuilder ''ppql4ntm'' ''production'')"
    by (simp add: module_load_def client_def)
  have v: "not_found_view =
       Element ''main'' [(''className'', ''container mx-auto min-h-screen max-w-3xl p-8'')]
         [Element ''Link''
            [(''href'', ''/''), (''className'', ''text-blue-600 hover:underline mb-4 inline-block'')]
            [Text ([CHR 0xE2, CHR 0x86, CHR 0x90] @ '' Back to posts'')],
          Element ''h1'' [(''className'', ''text-4xl font-bold'')] [Text ''Post not found'']]"
    by (simp add: not_found_view_def back_arrow_def)
  have d: "PostPage_render L builder (Val post) \<noteq> Inr not_found_view" for post
  proof
    assume "PostPage_render L builder (Val post) = Inr not_found_view"
    then have "post_view L builder post = Inr not_found_view" by simp
    from post_view_shape [OF this] show False by (auto simp: not_found_view_def)
  qed
  from q l d show ?thesis
    unfolding Let_def v [symmetric]
    by (simp add: PostPage_def generateMetadata_def serve_PostPage_def serve_generateMetadata_def)
qed

theorem not_found_handled_witness:
  "filter (POST_filter ''third'') [post_doc ''p3'' ''third'' ''2024-02-01'' ''draft''] = []
   \<and> PostPage unreached_lib (imageUrlBuilder ''ppql4ntm'' ''production'') [post_doc ''p3'' ''third'' ''2024-02-01'' ''draft''] ''third'' =
       Inr (Element ''main'' [(''className'', ''container mx-auto min-h-screen max-w-3xl p-8'')]
         [Element ''Link''
            [(''href'', ''/''), (''className'', ''text-blue-600 hover:underline mb-4 inline-block'')]
            [Text ([CHR 0xE2, CHR 0x86, CHR 0x90] @ '' Back to posts'')],
          Element ''h1'' [(''className'', ''text-4xl font-bold'')] [Text ''Post not found'']])
   \<and> generateMetadata [post_doc ''p3'' ''third'' ''2024-02-01'' ''draft''] ''third'' = \<lparr>md_title = Val ''Post Not Found'', md_description = Undefined, md_keywords = Undefined\<rparr>"
proof -
  let ?ds = "[post_doc ''p3'' ''third'' ''2024-02-01'' ''draft'']"
  have f: "filter (POST_filter ''third'') ?ds = []"
    by (simp add: POST_filter_def post_doc_def)
  note n = not_found_handled [OF f, of unreached_lib "imageUrlBuilder ''ppql4ntm'' ''production''", unfolded Let_def]
  from n have p: "PostPage unreached_lib (imageUrlBuilder ''ppql4ntm'' ''production'') ?ds ''third'' =
       Inr (Element ''main'' [(''className'', ''container mx-auto min-h-screen max-w-3xl p-8'')]
         [Element ''Link''
            [(''href'', ''/''), (''className'', ''text-blue-600 hover:underline mb-4 inline-block'')]
            [Text ([CHR 0xE2, CHR 0x86, CHR 0x90] @ '' Back to posts'')],
          Element ''h1'' [(''className'', ''text-4xl font-bold'')] [Text ''Post not found'']])"
    by (rule conjunct1)
  from n have m: "generateMetadata ?ds ''third'' = \<lparr>md_title = Val ''Post Not Found'', md_description = Undefined, md_keywords = Undefined\<rparr>"
    by (rule conjunct1 [OF conjunct2])
  from f p m show ?thesis by (intro conjI)
qed





section \<open>Properties of the index page\<close>

lemma posts_view_Inr: "posts_view L ps = Inr m \<Longrightarrow> \<exists>cards. length cards = length ps \<and> m = posts_list cards"
  by (auto simp: posts_view_def and_then_Inr_iff dest: each_length)

lemma POSTS_QUERY_empty: "filter POSTS_filter ds = [] \<Longrightarrow> POSTS_QUERY ds = []"
  by (simp add: POSTS_QUERY_def POSTS_selected_def order_desc_def)

lemma no_posts_view_markup:
  "no_posts_view =
       Element ''main'' [(''className'', ''container mx-auto min-h-screen max-w-3xl p-8'')]
         [Element ''h1'' [(''className'', ''text-4xl font-bold mb-8'')] [Text ''Blog Posts''],
          Element ''p'' [(''className'', ''text-gray-600'')] [Text ''No posts found.'']]"
  by (simp add: no_posts_view_def)

lemma posts_list_markup:
  "posts_list cards =
       Element ''main'' [(''className'', ''container mx-auto min-h-screen max-w-3xl p-8'')]
         [Element ''h1'' [(''className'', ''text-4xl font-bold mb-8'')] [Text ''Blog Posts''],
          Element ''div'' [(''className'', ''grid gap-6'')] cards]"
  by (simp add: posts_list_def)

text \<open>
  C8. When the result of the index query is empty or absent, the index page is the view
  with the heading "Blog Posts" and the paragraph "No posts found.". A non-empty result
  never gives that view: when it renders, it gives the list frame with one card for each
  post. The page is never the list frame with no card in it.
\<close>

theorem empty_result_explicit:
  "let no_posts =
       Element ''main'' [(''className'', ''container mx-auto min-h-screen max-w-3xl p-8'')]
         [Element ''h1'' [(''className'', ''text-4xl font-bold mb-8'')] [Text ''Blog Posts''],
          Element ''p'' [(''className'', ''text-gray-600'')] [Text ''No posts found.'']];
       frame = (\<lambda>cards.
       Element ''main'' [(''className'', ''container mx-auto min-h-screen max-w-3xl p-8'')]
         [Element ''h1'' [(''className'', ''text-4xl font-bold mb-8'')] [Text ''Blog Posts''],
          Element ''div'' [(''className'', ''grid gap-6'')] cards])
   in (r = Undefined \<or> r = Null \<or> r = Val [] \<longrightarrow> BlogIndexPage_render L r = Inr no_posts)
    \<and> (filter POSTS_filter ds = [] \<longrightarrow> BlogIndexPage L ds = Inr no_posts)
    \<and> (\<forall>p ps. BlogIndexPage_render L (Val (p # ps)) \<noteq> Inr no_posts)
    \<and> (\<forall>p ps m. BlogIndexPage_render L (Val (p # ps)) = Inr m
          \<longrightarrow> (\<exists>cards. length cards = Suc (length ps) \<and> m = frame cards))
    \<and> (\<forall>r'. BlogIndexPage_render L r' \<noteq> Inr (frame []))"
proof -
  have a: "BlogIndexPage_render L r = Inr no_posts_view" if "r = Undefined \<or> r = Null \<or> r = Val []"
    using that by auto
  have b: "BlogIndexPage L ds = Inr no_posts_view" if "filter POSTS_filter ds = []"
    using that by (simp add: BlogIndexPage_def POSTS_QUERY_empty)
  have d: "\<exists>cards. length cards = Suc (length ps) \<and> m = posts_list cards"
    if "BlogIndexPage_render L (Val (p # ps)) = Inr m" for p ps m
    using that posts_view_Inr [of L "p # ps" m] by simp
  have c: "BlogIndexPage_render L (Val (p # ps)) \<noteq> Inr no_posts_view" for p ps
  proof
    assume "BlogIndexPage_render L (Val (p # ps)) = Inr no_posts_view"
    from d [OF this] show False by (auto simp: posts_list_def no_posts_view_def)
  qed
  have e: "BlogIndexPage_render L r' \<noteq> Inr (posts_list [])" for r'
  proof
    assume x: "BlogIndexPage_render L r' = Inr (posts_list [])"
    show False
    proof (cases r')
      case (Val ps)
      show ?thesis
      proof (cases ps)
        case Nil
        with Val x show ?thesis by (simp add: posts_list_def no_posts_view_def)
      next
        case (Cons q qs)
        with Val x d [of q qs "posts_list []"] show ?thesis by (auto simp: posts_list_def)
      qed
    qed (use x in \<open>simp_all add: posts_list_def no_posts_view_def\<close>)
  qed
  from a b c d e show ?thesis
    unfolding Let_def no_posts_view_markup [symmetric] posts_list_markup [symmetric] by blast
qed

theorem empty_result_explicit_witness:
  "BlogIndexPage_render unreached_lib (Val []) =
       Inr (Element ''main'' [(''className'', ''container mx-auto min-h-screen max-w-3xl p-8'')]
         [Element ''h1'' [(''className'', ''text-4xl font-bold mb-8'')] [Text ''Blog Posts''],
          Element ''p'' [(''className'', ''text-gray-600'')] [Text ''No posts found.'']])
   \<and> filter POSTS_filter [post_doc ''p3'' ''third'' ''2024-02-01'' ''draft''] = []
   \<and> BlogIndexPage unreached_lib [post_doc ''p3'' ''third'' ''2024-02-01'' ''draft''] =
       Inr (Element ''main'' [(''className'', ''container mx-auto min-h-screen max-w-3xl p-8'')]
         [Element ''h1'' [(''className'', ''text-4xl font-bold mb-8'')] [Text ''Blog Posts''],
          Element ''p'' [(''className'', ''text-gray-600'')] [Text ''No posts found.'']])"
proof -
  let ?ds = "[post_doc ''p3'' ''third'' ''2024-02-01'' ''draft'']"
  note e = empty_result_explicit [of "Val []" unreached_lib ?ds, unfolded Let_def]
  have f: "filter POSTS_filter ?ds = []"
    by (simp add: POSTS_filter_def post_doc_def)
  from e have a: "BlogIndexPage_render unreached_lib (Val []) =
       Inr (Element ''main'' [(''className'', ''container mx-auto min-h-screen max-w-3xl p-8'')]
         [Element ''h1'' [(''className'', ''text-4xl font-bold mb-8'')] [Text ''Blog Posts''],
          Element ''p'' [(''className'', ''text-gray-600'')] [Text ''No posts found.'']])"
    by blast
  from e f have b: "BlogIndexPage unreached_lib ?ds =
       Inr (Element ''main'' [(''className'', ''container mx-auto min-h-screen max-w-3xl p-8'')]
         [Element ''h1'' [(''className'', ''text-4xl font-bold mb-8'')] [Text ''Blog Posts''],
          Element ''p'' [(''className'', ''text-gray-600'')] [Text ''No posts found.'']])"
    by blast
  from a f b show ?thesis by (intro conjI)
qed

text \<open>
  C10. A fetch result that is null or undefined gives the same page as the empty list: the
  view with the heading "Blog Posts" and the paragraph "No posts found.". For every fetch
  result, either it is one of these three and the page is that view, or it is a non-empty
  list and the page is the mapping of the cards over its posts inside the list frame, which
  is never that view.
\<close>

theorem nullish_result_as_empty:
  "let no_posts =
       Element ''main'' [(''className'', ''container mx-auto min-h-screen max-w-3xl p-8'')]
         [Element ''h1'' [(''className'', ''text-4xl font-bold mb-8'')] [Text ''Blog Posts''],
          Element ''p'' [(''className'', ''text-gray-600'')] [Text ''No posts found.'']];
       frame = (\<lambda>cards.
       Element ''main'' [(''className'', ''container mx-auto min-h-screen max-w-3xl p-8'')]
         [Element ''h1'' [(''className'', ''text-4xl font-bold mb-8'')] [Text ''Blog Posts''],
          Element ''div'' [(''className'', ''grid gap-6'')] cards])
   in BlogIndexPage_render L Null = Inr no_posts
    \<and> BlogIndexPage_render L Undefined = Inr no_posts
    \<and> BlogIndexPage_render L (Val []) = Inr no_posts
    \<and> ((r = Undefined \<or> r = Null \<or> r = Val []) \<and> BlogIndexPage_render L r = Inr no_posts
       \<or> (\<exists>p ps. r = Val (p # ps)
            \<and> BlogIndexPage_render L r =
                  and_then (each (post_card L) (p # ps)) (\<lambda>cards. Inr (frame cards))
            \<and> BlogIndexPage_render L r \<noteq> Inr no_posts))"
proof -
  have n: "BlogIndexPage_render L (Val (p # ps)) \<noteq> Inr no_posts_view" for p ps
  proof
    assume "BlogIndexPage_render L (Val (p # ps)) = Inr no_posts_view"
    then have "posts_view L (p # ps) = Inr no_posts_view" by simp
    from posts_view_Inr [OF this] show False by (auto simp: posts_list_def no_posts_view_def)
  qed
  have "(r = Undefined \<or> r = Null \<or> r = Val []) \<and> BlogIndexPage_render L r = Inr no_posts_view
      \<or> (\<exists>p ps. r = Val (p # ps)
            \<and> BlogIndexPage_render L r =
                  and_then (each (post_card L) (p # ps)) (\<lambda>cards. Inr (posts_list cards))
            \<and> BlogIndexPage_render L r \<noteq> Inr no_posts_view)"
  proof (cases r)
    case (Val qs)
    show ?thesis
    proof (cases qs)
      case Nil
      with Val show ?thesis by simp
    next
      case (Cons q qs')
      with Val n [of q qs'] show ?thesis by (simp add: posts_view_def)
    qed
  qed simp_all
  then show ?thesis
    unfolding Let_def no_posts_view_markup [symmetric] posts_list_markup [symmetric] by simp
qed

theorem nullish_result_as_empty_witness:
  "BlogIndexPage_render unreached_lib Null =
       Inr (Element ''main'' [(''className'', ''container mx-auto min-h-screen max-w-3xl p-8'')]
         [Element ''h1'' [(''className'', ''text-4xl font-bold mb-8'')] [Text ''Blog Posts''],
          Element ''p'' [(''className'', ''text-gray-600'')] [Text ''No posts found.'']])
   \<and> BlogIndexPage_render unreached_lib Undefined =
       Inr (Element ''main'' [(''className'', ''container mx-auto min-h-screen max-w-3xl p-8'')]
         [Element ''h1'' [(''className'', ''text-4xl font-bold mb-8'')] [Text ''Blog Posts''],
          Element ''p'' [(''className'', ''text-gray-600'')] [Text ''No posts found.'']])
   \<and> BlogIndexPage_render unreached_lib (Val []) =
       Inr (Element ''main'' [(''className'', ''container mx-auto min-h-screen max-w-3xl p-8'')]
         [Element ''h1'' [(''className'', ''text-4xl font-bold mb-8'')] [Text ''Blog Posts''],
          Element ''p'' [(''className'', ''text-gray-600'')] [Text ''No posts found.'']])"
proof -
  note e = nullish_result_as_empty [of unreached_lib Null, unfolded Let_def]
  from e have a: "BlogIndexPage_render unreached_lib Null =
       Inr (Element ''main'' [(''className'', ''container mx-auto min-h-screen max-w-3xl p-8'')]
         [Element ''h1'' [(''className'', ''text-4xl font-bold mb-8'')] [Text ''Blog Posts''],
          Element ''p'' [(''className'', ''text-gray-600'')] [Text ''No posts found.'']])"
    by (rule conjunct1)
  from e have b: "BlogIndexPage_render unreached_lib Undefined =
       Inr (Element ''main'' [(''className'', ''container mx-auto min-h-screen max-w-3xl p-8'')]
         [Element ''h1'' [(''className'', ''text-4xl font-bold mb-8'')] [Text ''Blog Posts''],
          Element ''p'' [(''className'', ''text-gray-600'')] [Text ''No posts found.'']])"
    by (rule conjunct1 [OF conjunct2])
  from e have c: "BlogIndexPage_render unreached_lib (Val []) =
       Inr (Element ''main'' [(''className'', ''container mx-auto min-h-screen max-w-3xl p-8'')]
         [Element ''h1'' [(''className'', ''text-4xl font-bold mb-8'')] [Text ''Blog Posts''],
          Element ''p'' [(''className'', ''text-gray-600'')] [Text ''No posts found.'']])"
    by (rule conjunct1 [OF conjunct2 [OF conjunct2]])
  from a b c show ?thesis by (intro conjI)
qed

end
